theory Spec2Isabelle
  imports Main "HOL-Library.Sublist" "HOL-Library.Char_ord" "HOL-Library.List_Lexorder"
begin

section \<open>Strings and the regular expressions of the segmenter\<close>

text \<open>
  Strings are \<^typ>\<open>string\<close> (lists of characters); a character is a code unit below
  256. The whitespace class \<open>\s\<close> of the regular expressions and of
  \<open>String.prototype.trim\<close> has these members below 256: tab, line feed, vertical tab,
  form feed, carriage return, space and the no-break space U+00A0.
\<close>

definition isSpace :: "char \<Rightarrow> bool" where
  "isSpace c =
     (c \<in> {CHR 0x09, CHR 0x0A, CHR 0x0B, CHR 0x0C, CHR 0x0D, CHR 0x20, CHR 0xA0})"

definition newline :: char where
  "newline = CHR 0x0A"

text \<open>\<open>s.trim().length === 0\<close>: the string holds whitespace only.\<close>

definition blank :: "string \<Rightarrow> bool" where
  "blank s = list_all isSpace s"

definition trimEnd :: "string \<Rightarrow> string" where
  "trimEnd s = rev (dropWhile isSpace (rev s))"

definition trim :: "string \<Rightarrow> string" where
  "trim s = dropWhile isSpace (trimEnd s)"

definition startsWith :: "string \<Rightarrow> string \<Rightarrow> bool" where
  "startsWith s p = (take (length p) s = p)"

definition endsWith :: "string \<Rightarrow> string \<Rightarrow> bool" where
  "endsWith s p = (length p \<le> length s \<and> drop (length s - length p) s = p)"

text \<open>\<open>yamlRegEx = /^---\s*$/\<close>\<close>

definition yamlRegEx :: "string \<Rightarrow> bool" where
  "yamlRegEx l = (take 3 l = ''---'' \<and> list_all isSpace (drop 3 l))"

text \<open>\<open>startCodeRegEx = /^```/\<close>\<close>

definition startCodeRegEx :: "string \<Rightarrow> bool" where
  "startCodeRegEx l = (take 3 l = ''```'')"

text \<open>\<open>endCodeRegEx = /^```\s*$/\<close>: exactly three backticks, then whitespace only.\<close>

definition endCodeRegEx :: "string \<Rightarrow> bool" where
  "endCodeRegEx l = (take 3 l = ''```'' \<and> list_all isSpace (drop 3 l))"

text \<open>
  \<open>startCodeCellRegEx = new RegExp("^\\s*```+\\s*\\{" + language + "( *[ ,].*)?\\}\\s*$")\<close>.
  The language is spliced, as it is, into the source of the expression, so its
  characters are read as a pattern. The constructor \<open>RegExp\<close> of JavaScript is a
  parameter of the model: it takes the source of an expression and gives the test of
  the compiled expression, or \<open>None\<close> when the source is no expression and the
  constructor throws a \<open>SyntaxError\<close>.
\<close>

type_synonym regexp = "string \<Rightarrow> (string \<Rightarrow> bool) option"

definition backslash :: char where
  "backslash = CHR 0x5C"

definition patternHead :: string where
  "patternHead = ''^'' @ [backslash] @ ''s*```+'' @ [backslash] @ ''s*'' @ [backslash] @ ''{''"

definition patternRest :: string where
  "patternRest = ''( *[ ,].*)?'' @ [backslash] @ ''}'' @ [backslash] @ ''s*$''"

definition startCodeCellRegEx :: "regexp \<Rightarrow> string \<Rightarrow> (string \<Rightarrow> bool) option" where
  "startCodeCellRegEx re language = re (patternHead @ language @ patternRest)"

section \<open>Splitting a document into lines\<close>

text \<open>
  Modelled from the spec: \<open>lines\<close> of \<open>core/text.ts\<close> is imported by
  \<open>break-quarto-md.ts\<close> and is not among the sources. The segmenter is "line-oriented",
  so \<open>lines\<close> splits the text at every line feed, a carriage return just before the line
  feed belonging to the separator (\<open>text.split(/\r?\n/)\<close>).
\<close>

definition stripCR :: "string \<Rightarrow> string" where
  "stripCR s = (if s \<noteq> [] \<and> last s = CHR 0x0D then butlast s else s)"

fun linesFrom :: "string \<Rightarrow> string \<Rightarrow> string list" where
  "linesFrom cur [] = [rev cur]"
| "linesFrom cur (c # cs) =
     (if c = CHR 0x0A then stripCR (rev cur) # linesFrom [] cs
      else linesFrom (c # cur) cs)"

definition lines :: "string \<Rightarrow> string list" where
  "lines src = linesFrom [] src"

section \<open>The segmenter: \<open>break-quarto-md.ts\<close>\<close>

text \<open>
  \<open>cell_type: "markdown" | CodeCellType | "raw"\<close>, with
  \<open>CodeCellType = { language: string }\<close>.
\<close>

datatype cell_type = Markdown | Code string | Raw

text \<open>
  \<open>QuartoMdCell\<close>. The optional \<open>id\<close> is never set by the code (the assignment is
  commented out), so the record has the two fields that are.
\<close>

record QuartoMdCell =
  cell_type :: cell_type
  source :: "string list"

text \<open>The argument of \<open>flushLineBuffer\<close>: \<open>"markdown" | "code" | "raw"\<close>.\<close>

datatype flush_type = FlushMarkdown | FlushCode | FlushRaw

text \<open>
  \<open>mdTrimEmptyLines\<close>: \<open>findIndex\<close> of the first line with a non-empty trim (none:
  the result is empty), \<open>slice\<close> from there, then the backwards loop for the last such
  line and \<open>slice(0, lastNonEmpty + 1)\<close>.
\<close>

definition mdTrimEmptyLines :: "string list \<Rightarrow> string list" where
  "mdTrimEmptyLines ls =
     (let ls1 = dropWhile blank ls in
      if ls1 = [] then [] else rev (dropWhile blank (rev ls1)))"

text \<open>
  The state of the loop of \<open>breakQuartoMd\<close>: the notebook's cells, the line buffer and
  the four flags.
\<close>

record seg_state =
  cells :: "QuartoMdCell list"
  lineBuffer :: "string list"
  parsedFrontMatter :: bool
  inYaml :: bool
  inCodeCell :: bool
  inCode :: bool

text \<open>
  \<open>lineBuffer.map((line, index) => line + (index < lineBuffer.length - 1 ? "\n" : ""))\<close>
\<close>

fun addNewlines :: "string list \<Rightarrow> string list" where
  "addNewlines [] = []"
| "addNewlines [l] = [l]"
| "addNewlines (l # ls) = (l @ [newline]) # addNewlines ls"

text \<open>
  \<open>flushLineBuffer\<close>. On a buffer that the first \<open>splice\<close> has emptied,
  \<open>lineBuffer[lineBuffer.length - 1]\<close> is \<open>undefined\<close>, which is not \<open>""\<close>.
\<close>

definition flushLineBuffer :: "string \<Rightarrow> flush_type \<Rightarrow> seg_state \<Rightarrow> seg_state" where
  "flushLineBuffer language ft st =
     (if lineBuffer st = [] then st
      else
        let b1 = (if hd (lineBuffer st) = [] then tl (lineBuffer st) else lineBuffer st);
            b2 = (if b1 \<noteq> [] \<and> last b1 = [] then butlast b1 else b1);
            cell = \<lparr> cell_type = (case ft of FlushCode \<Rightarrow> Code language
                                     | FlushMarkdown \<Rightarrow> Markdown | FlushRaw \<Rightarrow> Raw),
                     source = mdTrimEmptyLines (addNewlines b2) \<rparr>
        in st \<lparr> cells := (if source cell \<noteq> [] then cells st @ [cell] else cells st),
                lineBuffer := [] \<rparr>)"

definition push :: "string \<Rightarrow> seg_state \<Rightarrow> seg_state" where
  "push line st = st \<lparr> lineBuffer := lineBuffer st @ [line] \<rparr>"

text \<open>
  One iteration of \<open>for (const line of lines(src))\<close>; \<open>startCodeCell\<close> is the test
  of the compiled \<open>startCodeCellRegEx\<close>.
\<close>

definition step :: "(string \<Rightarrow> bool) \<Rightarrow> string \<Rightarrow> seg_state \<Rightarrow> string \<Rightarrow> seg_state" where
  "step startCodeCell language st line =
     (if yamlRegEx line \<and> \<not> inCodeCell st \<and> \<not> inCode st then
        (if inYaml st then
           (flushLineBuffer language FlushRaw (push line st))
             \<lparr> parsedFrontMatter := True, inYaml := False \<rparr>
         else
           (push line (flushLineBuffer language FlushMarkdown st)) \<lparr> inYaml := True \<rparr>)
      else if startCodeCell line then
        (flushLineBuffer language FlushMarkdown st) \<lparr> inCodeCell := True \<rparr>
      else if endCodeRegEx line then
        (if inCodeCell st then
           flushLineBuffer language FlushCode (st \<lparr> inCodeCell := False \<rparr>)
         else
           push line (st \<lparr> inCode := \<not> inCode st \<rparr>))
      else if startCodeRegEx line then
        push line (st \<lparr> inCode := True \<rparr>)
      else
        push line st)"

definition initial :: seg_state where
  "initial = \<lparr> cells = [], lineBuffer = [], parsedFrontMatter = False,
               inYaml = False, inCodeCell = False, inCode = False \<rparr>"

definition run :: "(string \<Rightarrow> bool) \<Rightarrow> string \<Rightarrow> seg_state \<Rightarrow> string list \<Rightarrow> seg_state" where
  "run startCodeCell language st ls = foldl (step startCodeCell language) st ls"

text \<open>The body of \<open>breakQuartoMd\<close> once the expression is compiled.\<close>

definition segmentWith :: "(string \<Rightarrow> bool) \<Rightarrow> string \<Rightarrow> string \<Rightarrow> QuartoMdCell list" where
  "segmentWith startCodeCell language src =
     cells (flushLineBuffer language FlushMarkdown
              (run startCodeCell language initial (lines src)))"

text \<open>
  \<open>breakQuartoMd\<close>: \<open>Inl\<close> is the \<open>SyntaxError\<close> that \<open>new RegExp\<close> throws before
  any line is read, \<open>Inr\<close> the cells of the notebook.
\<close>

datatype segment_error = SyntaxError

definition breakQuartoMd :: "regexp \<Rightarrow> string \<Rightarrow> string \<Rightarrow> segment_error + QuartoMdCell list" where
  "breakQuartoMd re src language =
     (case startCodeCellRegEx re language of
        None \<Rightarrow> Inl SyntaxError
      | Some startCodeCell \<Rightarrow> Inr (segmentWith startCodeCell language src))"

text \<open>
  What the compiled expression matches when the language consists of word characters
  (letters, digits, underscore), which match themselves. After optional whitespace,
  three or more backticks, optional whitespace and the opening brace comes the language;
  then either the closing brace and whitespace, or a space or comma followed by
  \<open>fenceTail\<close> (the optional group \<open>( *[ ,].*)?\<close>: its leading spaces are also matched
  by \<open>.*\<close>, so the group is present exactly when the first character is a space or a
  comma). The tail \<open>.*\}\s*$\<close> is some characters other than line terminators (line
  feed and carriage return, below 256), a closing brace, whitespace: the brace is the
  last character that is not whitespace.
\<close>

definition fenceTail :: "string \<Rightarrow> bool" where
  "fenceTail m = (let s = trimEnd m in
     s \<noteq> [] \<and> last s = CHR ''}'' \<and>
     list_all (\<lambda>c. c \<noteq> CHR 0x0A \<and> c \<noteq> CHR 0x0D) (butlast s))"

definition wordFence :: "string \<Rightarrow> string \<Rightarrow> bool" where
  "wordFence language l =
    (let l1 = dropWhile isSpace l in
     take 3 l1 = ''```'' \<and>
     (let l2 = dropWhile (\<lambda>c. c = CHR ''`'') (drop 3 l1);
          l3 = dropWhile isSpace l2 in
      l3 \<noteq> [] \<and> hd l3 = CHR ''{'' \<and>
      (let l4 = tl l3 in
       take (length language) l4 = language \<and>
       (let r = drop (length language) l4 in
        (r \<noteq> [] \<and> hd r = CHR ''}'' \<and> list_all isSpace (tl r)) \<or>
        (r \<noteq> [] \<and> (hd r = CHR '' '' \<or> hd r = CHR '','') \<and> fenceTail (tl r))))))"

text \<open>
  The constructor used for the concrete documents below. It agrees with the constructor
  of JavaScript on the expression of a language of word characters, which it compiles
  to \<open>wordFence\<close>, and on the expression of the language \<open>c++\<close>, which is no
  expression (a quantifier follows a quantifier) and makes the constructor throw. It is
  given no other source there, and its value \<open>None\<close> on one says nothing of
  JavaScript.
\<close>

definition wordChar :: "char \<Rightarrow> bool" where
  "wordChar c =
     (c \<in> set ''abcdefghijklmnopqrstuvwxyzABCDEFGHIJKLMNOPQRSTUVWXYZ0123456789_'')"

definition wordRegExp :: regexp where
  "wordRegExp p =
     (let lang = take (length p - length patternHead - length patternRest)
                   (drop (length patternHead) p) in
      if p = patternHead @ lang @ patternRest \<and> lang \<noteq> [] \<and> list_all wordChar lang
      then Some (wordFence lang) else None)"

section \<open>Properties of the segmenter: vocabulary\<close>

text \<open>
  A line of a cell's \<open>source\<close> without the line feed that \<open>flushLineBuffer\<close> appended.
\<close>

definition chomp :: "string \<Rightarrow> string" where
  "chomp s = (if s \<noteq> [] \<and> last s = newline then butlast s else s)"

definition cellLines :: "QuartoMdCell list \<Rightarrow> string list" where
  "cellLines cs = map chomp (concat (map source cs))"

text \<open>
  \<open>drops P xs ys\<close>: the list \<open>ys\<close> is \<open>xs\<close> with some elements deleted, every deleted
  element satisfying \<open>P\<close>; nothing else is lost, nothing is duplicated or reordered.
\<close>

fun drops :: "('a \<Rightarrow> bool) \<Rightarrow> 'a list \<Rightarrow> 'a list \<Rightarrow> bool" where
  "drops P [] ys = (ys = [])"
| "drops P (x # xs) ys =
     ((P x \<and> drops P xs ys) \<or> (case ys of [] \<Rightarrow> False | y # ys' \<Rightarrow> x = y \<and> drops P xs ys'))"

text \<open>The lines that the segmenter does not hand on to any cell.\<close>

definition dropped :: "(string \<Rightarrow> bool) \<Rightarrow> string \<Rightarrow> bool" where
  "dropped startCodeCell l = (blank l \<or> startCodeCell l \<or> endCodeRegEx l)"

text \<open>
  The loop invariant: the cells emitted so far and the line buffer hold the lines
  consumed so far, up to dropped lines.
\<close>

definition seg_inv :: "(string \<Rightarrow> bool) \<Rightarrow> seg_state \<Rightarrow> string list \<Rightarrow> bool" where
  "seg_inv startCodeCell st done =
     (drops (dropped startCodeCell) done (cellLines (cells st) @ lineBuffer st) \<and>
      (\<forall>l\<in>set (lineBuffer st). newline \<notin> set l))"

text \<open>
  \<open>blocks P doc cs\<close>: the list \<open>doc\<close> is a gap, the first list of \<open>cs\<close>, a gap, the
  second list, and so on to a last gap, every element of a gap satisfying \<open>P\<close>. Each
  list of \<open>cs\<close> is a contiguous run of \<open>doc\<close>, and the runs come in order.
\<close>

fun blocks :: "('a \<Rightarrow> bool) \<Rightarrow> 'a list \<Rightarrow> 'a list list \<Rightarrow> bool" where
  "blocks P doc [] = list_all P doc"
| "blocks P doc (c # cs) =
     list_ex (\<lambda>n. list_all P (take n doc) \<and> take (length c) (drop n doc) = c
                  \<and> blocks P (drop (n + length c) doc) cs)
       [0..<Suc (length doc)]"

text \<open>The lines of a cell, without the line feeds that the flush appended.\<close>

definition cellBlock :: "QuartoMdCell \<Rightarrow> string list" where
  "cellBlock c = map chomp (source c)"

text \<open>A cell that has content and neither begins nor ends with a blank line.\<close>

definition trimmed :: "QuartoMdCell \<Rightarrow> bool" where
  "trimmed c = (source c \<noteq> [] \<and> \<not> blank (hd (source c)) \<and> \<not> blank (last (source c)))"

text \<open>
  The second loop invariant, for a predicate \<open>P\<close> of the gaps: the lines \<open>done\<close> are the
  blocks of the cells emitted so far, with their gaps, followed by the line buffer.
\<close>

definition seg_blocks :: "(string \<Rightarrow> bool) \<Rightarrow> seg_state \<Rightarrow> string list \<Rightarrow> bool" where
  "seg_blocks P st done =
     (list_ex (\<lambda>n. drop n done = lineBuffer st \<and>
                 blocks P (take n done) (map cellBlock (cells st)))
        [0..<Suc (length done)] \<and>
      list_all trimmed (cells st) \<and>
      list_all (\<lambda>l. newline \<notin> set l) (lineBuffer st))"





definition oneLine :: string where
  "oneLine = ''a''"

definition twoLines :: string where
  "twoLines = newline # ''a''"

text \<open>A code cell opened and closed by fences of four backticks.\<close>

definition longFenceLines :: "string list" where
  "longFenceLines = [''````{python}'', ''1+1'']"

definition longFenceDoc :: string where
  "longFenceDoc = ''````{python}'' @ [newline] @ ''1+1'' @ [newline] @ ''````''"

text \<open>A fence of the target language inside a bare fenced block.\<close>

definition nestedDoc :: string where
  "nestedDoc = ''```'' @ [newline] @ ''```{python}'' @ [newline] @ ''1'' @ [newline]
     @ ''```'' @ [newline] @ ''```''"

section \<open>Schemas and the schema navigator\<close>

text \<open>
  The schema tree of the spec: an object (named and pattern properties), an array (item
  schema), a scalar (type or enumeration) or a union (a list of alternative schemas).
\<close>

datatype scalar = SBoolean | SString | SNumber | SNull | SEnum "string list"

datatype schema =
    Object "(string \<times> schema) list" "(string \<times> schema) list"
  | Array schema
  | Scalar scalar
  | AnyOf "schema list"

text \<open>A path segment: a key of a mapping or an index of a sequence.\<close>

datatype segment = Key string | Index int

text \<open>
  Modelled from the spec: \<open>navigateSchema\<close> of \<open>schemas.js\<close> is imported by
  \<open>automation.js\<close> and is not among the sources. The spec: an empty path returns the
  schema itself; for an object schema and a string key, descend into the named
  property's schema, or into a matching pattern-property schema (here: the first one
  whose pattern matches, the matcher of patterns being the parameter \<open>m\<close>); for an array
  schema and a numeric segment, descend into the item schema whatever the number; for a
  union, descend into every alternative and return the union of all results, a path
  that is invalid for a branch dropping that branch only. The spec calls the result a
  set of schemas; its members are schema objects, which JavaScript tells apart by
  identity, so two alternatives that lead to equal sub-schemas give two results. The
  model returns the list of the results (the caller, \<open>completions\<close>, consumes an
  array with \<open>map\<close> and \<open>flat\<close>): its length is the number of sub-schemas
  returned, its \<open>set\<close> the union of the spec.
\<close>

primrec navigateSchema ::
  "(string \<Rightarrow> string \<Rightarrow> bool) \<Rightarrow> schema \<Rightarrow> segment list \<Rightarrow> schema list" where
  "navigateSchema m (Object props pats) path =
     (case path of
        [] \<Rightarrow> [Object props pats]
      | Key k # rest \<Rightarrow>
          (case map_of (map (map_prod id (navigateSchema m)) props) k of
             Some nav \<Rightarrow> nav rest
           | None \<Rightarrow>
               (case find (\<lambda>pn. m (fst pn) k) (map (map_prod id (navigateSchema m)) pats) of
                  Some pn \<Rightarrow> snd pn rest
                | None \<Rightarrow> []))
      | Index i # rest \<Rightarrow> [])"
| "navigateSchema m (Array item) path =
     (case path of
        [] \<Rightarrow> [Array item]
      | Index i # rest \<Rightarrow> navigateSchema m item rest
      | Key k # rest \<Rightarrow> [])"
| "navigateSchema m (Scalar t) path =
     (case path of [] \<Rightarrow> [Scalar t] | seg # rest \<Rightarrow> [])"
| "navigateSchema m (AnyOf alts) path =
     (case path of
        [] \<Rightarrow> [AnyOf alts]
      | seg # rest \<Rightarrow> concat (map (\<lambda>nav. nav (seg # rest)) (map (navigateSchema m) alts)))"

text \<open>
  A schema accepts a segment: the object has the key as a named property or a pattern
  property matches it; the schema is an array and the segment is an index; for a union,
  some alternative accepts it.
\<close>

fun accepts :: "(string \<Rightarrow> string \<Rightarrow> bool) \<Rightarrow> schema \<Rightarrow> segment \<Rightarrow> bool" where
  "accepts m (Object props pats) (Key k) =
     (k \<in> set (map fst props) \<or> list_ex (\<lambda>ps. m (fst ps) k) pats)"
| "accepts m (Object props pats) (Index i) = False"
| "accepts m (Array item) (Index i) = True"
| "accepts m (Array item) (Key k) = False"
| "accepts m (Scalar t) seg = False"
| "accepts m (AnyOf alts) seg = list_ex (\<lambda>a. accepts m a seg) alts"

text \<open>
  The schemas that a schema stands for once the unions are resolved: the alternatives of
  a union, and of the unions among them, in order and with repetition; a schema that is
  not a union stands for itself.
\<close>

primrec leaves :: "schema \<Rightarrow> schema list" where
  "leaves (Object props pats) = [Object props pats]"
| "leaves (Array item) = [Array item]"
| "leaves (Scalar t) = [Scalar t]"
| "leaves (AnyOf alts) = concat (map leaves alts)"

text \<open>The alternatives of a union in which a one-segment path is valid.\<close>

definition validAlternatives ::
  "(string \<Rightarrow> string \<Rightarrow> bool) \<Rightarrow> schema list \<Rightarrow> segment \<Rightarrow> schema list" where
  "validAlternatives m alts seg = filter (\<lambda>a. accepts m a seg) alts"

fun isUnion :: "schema \<Rightarrow> bool" where
  "isUnion (AnyOf alts) = True"
| "isUnion s = False"

text \<open>
  Concrete alternatives: one alternative that is itself a union; a union of a union and
  an object, beside an array; and four alternatives none of which is a union.
\<close>

definition noPatterns :: "string \<Rightarrow> string \<Rightarrow> bool" where
  "noPatterns p k = False"

definition nestedAlts :: "schema list" where
  "nestedAlts =
     [AnyOf [Object [(''a'', Scalar SString)] [], Object [(''a'', Scalar SNumber)] []]]"

definition doubleAlts :: "schema list" where
  "doubleAlts =
     [AnyOf [AnyOf [Object [(''a'', Scalar SString)] [], Scalar SNull],
             Object [(''a'', Scalar SNumber)] []],
      Array (Scalar SNull)]"

definition flatAlts :: "schema list" where
  "flatAlts =
     [Object [(''a'', Scalar SString)] [], Array (Scalar SNull),
      Object [(''b'', Scalar SNull), (''a'', Scalar SNumber)] [], Scalar SBoolean]"

section \<open>The recovery parser and the completion engine: \<open>automation.js\<close>\<close>

text \<open>
  A mapped string is modelled by its \<open>value\<close>; the provenance map plays no part in the
  control flow of \<open>automation.js\<close>.
\<close>

record position =
  row :: int
  column :: int

text \<open>
  The \<open>context\<close> object: the editing line up to the cursor, the cursor, the contents of
  the buffer, the schema, and the comment prefix (\<open>commentPrefix || ""\<close>).
\<close>

record yaml_context =
  ctx_line :: string
  ctx_position :: position
  ctx_code :: string
  ctx_schema :: schema
  ctx_commentPrefix :: string

text \<open>A completion, as \<open>completions\<close> reads and rebuilds it.\<close>

datatype completion_type = KeyCompletion | ValueCompletion

record completion =
  comp_type :: completion_type
  comp_value :: string
  suggest_on_accept :: bool
  comp_schema :: schema

text \<open>The object that \<open>completions\<close> resolves to.\<close>

record completions_result =
  token :: string
  completions_list :: "completion list"
  cacheable :: bool

text \<open>An error of the validator, and the lint made of it.\<close>

record validation_error =
  start_line :: int
  start_column :: int
  end_line :: int
  end_column :: int
  messageNoLocation :: string

record lint =
  lint_start_row :: int
  lint_start_column :: int
  lint_end_row :: int
  lint_end_column :: int
  lint_text :: string
  lint_type :: string

text \<open>
  \<open>ParseAttempt\<close>: the tree, the text that was parsed, and the number of trailing
  characters removed from the line.
\<close>

record 'tree parse_attempt =
  tree :: 'tree
  mappedCode :: string
  deletions :: nat

text \<open>
  The collaborators that \<open>automation.js\<close> imports and that are not among the sources,
  as parameters: the grammar-based parser (\<open>None\<close> is a structural failure),
  \<open>buildAnnotated\<close> (\<open>None\<close> is \<open>null\<close>), \<open>core.rowColToIndex\<close>, \<open>locateCursor\<close> (the
  pair \<open>withError\<close>, \<open>value\<close>), \<open>locateFromIndentation\<close> (of the line, the code and
  the position), the matcher of pattern properties, \<open>core.schemaCompletions\<close>, the
  validator's \<open>validateParse\<close>, and the collation key by which \<open>localeCompare\<close>
  orders strings (a key in a linear order: \<open>a.localeCompare(b) \<le> 0\<close> exactly when
  \<open>collate a \<le> collate b\<close>).
\<close>

record ('tree, 'ann, 'k) collaborators =
  parse :: "string \<Rightarrow> 'tree option"
  buildAnnotated :: "'tree \<Rightarrow> string \<Rightarrow> 'ann option"
  rowColToIndex :: "string \<Rightarrow> position \<Rightarrow> int"
  locateCursor :: "'ann \<Rightarrow> int \<Rightarrow> bool \<times> segment list"
  locateFromIndentation :: "string \<Rightarrow> string \<Rightarrow> position \<Rightarrow> segment list"
  matchPattern :: "string \<Rightarrow> string \<Rightarrow> bool"
  schemaCompletions :: "schema \<Rightarrow> completion list"
  validateParse :: "schema \<Rightarrow> string \<Rightarrow> 'ann \<Rightarrow> validation_error list"
  collate :: "string \<Rightarrow> 'k"

text \<open>
  Modelled from the spec: \<open>attemptParsesAtLine\<close> of \<open>parsing.js\<close> is imported by
  \<open>automation.js\<close> and is not among the sources. The spec: an ordered sequence of
  parse attempts from most complete to least; first the line as given, then the line
  with one more trailing character removed each time, \<open>deletions\<close> counting the removed
  characters, until the line is exhausted; a truncation that the parser rejects yields
  no attempt. The callers take the attempts in order and stop at the first they can use.
\<close>

definition attemptAt :: "(string \<Rightarrow> 'tree option) \<Rightarrow> string \<Rightarrow> nat \<Rightarrow> 'tree parse_attempt option" where
  "attemptAt parser l d =
     map_option (\<lambda>t. \<lparr> tree = t, mappedCode = take (length l - d) l, deletions = d \<rparr>)
       (parser (take (length l - d) l))"

definition attemptParsesAtLine :: "(string \<Rightarrow> 'tree option) \<Rightarrow> string \<Rightarrow> 'tree parse_attempt list" where
  "attemptParsesAtLine parser l = List.map_filter (attemptAt parser l) [0..<length l + 1]"

text \<open>
  \<open>validationFromGoodParseYAML\<close>: the loop over the attempts, run under
  \<open>core.withValidator\<close>, and the lints made of the errors of the first attempt that
  has an annotation; the empty list when there is none. The \<open>code\<close> of the model is a
  string, so the test \<open>code.value === undefined\<close> never throws.
\<close>

definition lintOf :: "validation_error \<Rightarrow> lint" where
  "lintOf e = \<lparr> lint_start_row = start_line e, lint_start_column = start_column e,
                lint_end_row = end_line e, lint_end_column = end_column e,
                lint_text = messageNoLocation e, lint_type = ''error'' \<rparr>"

fun validationLoop ::
  "('tree, 'ann, 'k) collaborators \<Rightarrow> yaml_context \<Rightarrow> 'tree parse_attempt list \<Rightarrow> lint list" where
  "validationLoop env ctx [] = []"
| "validationLoop env ctx (a # as) =
     (case buildAnnotated env (tree a) (mappedCode a) of
        None \<Rightarrow> validationLoop env ctx as
      | Some annotation \<Rightarrow>
          map lintOf (validateParse env (ctx_schema ctx) (ctx_code ctx) annotation))"

definition validationFromGoodParseYAML ::
  "('tree, 'ann, 'k) collaborators \<Rightarrow> yaml_context \<Rightarrow> lint list" where
  "validationFromGoodParseYAML env ctx =
     validationLoop env ctx (attemptParsesAtLine (parse env) (ctx_line ctx))"

text \<open>
  The inner \<open>map\<close> of \<open>completions\<close>: a key completion with \<open>suggest_on_accept\<close> whose
  schema is an object gets a line break and the indentation appended when the key's
  sub-schema (\<open>completion.schema.properties[key]\<close>) is an object or an array. A key
  that the object's properties do not have leaves the completion as it is.
\<close>

definition indentCompletion :: "nat \<Rightarrow> string \<Rightarrow> completion \<Rightarrow> completion" where
  "indentCompletion indent commentPrefix c =
     (if \<not> suggest_on_accept c \<or> comp_type c = ValueCompletion then c
      else case comp_schema c of
        Object props pats \<Rightarrow>
          (case map_of props (takeWhile (\<lambda>x. x \<noteq> CHR '':'') (comp_value c)) of
             Some (Object ps qs) \<Rightarrow>
               c \<lparr> comp_value := comp_value c @ [newline] @ commentPrefix
                                   @ replicate (indent + 2) CHR '' '' \<rparr>
           | Some (Array item) \<Rightarrow>
               c \<lparr> comp_value := comp_value c @ [newline] @ commentPrefix
                                   @ replicate (indent + 2) CHR '' '' @ ''- '' \<rparr>
           | _ \<Rightarrow> c)
      | _ \<Rightarrow> c)"

text \<open>
  \<open>completions\<close>: the completions of every schema that \<open>navigateSchema\<close> reaches,
  flattened, filtered by \<open>startsWith(word)\<close>, sorted (stably) by \<open>localeCompare\<close> of the
  values, with the token and \<open>cacheable: true\<close>.
\<close>

definition completions ::
  "('tree, 'ann, 'k::linorder) collaborators \<Rightarrow> schema \<Rightarrow> segment list \<Rightarrow> string \<Rightarrow> nat
     \<Rightarrow> string \<Rightarrow> completions_result" where
  "completions env sch path word indent commentPrefix =
     (let matchingSchemas = navigateSchema (matchPattern env) sch path;
          cs = filter (\<lambda>c. startsWith (comp_value c) word)
                 (concat (map (\<lambda>s. map (indentCompletion indent commentPrefix)
                                      (schemaCompletions env s)) matchingSchemas))
      in \<lparr> token = word,
           completions_list = sort_key (\<lambda>c. collate env (comp_value c)) cs,
           cacheable = True \<rparr>)"

definition onlyType :: "completion_type \<Rightarrow> completions_result \<Rightarrow> completions_result" where
  "onlyType t raw =
     raw \<lparr> completions_list := filter (\<lambda>c. comp_type c = t) (completions_list raw) \<rparr>"

text \<open>
  The word being completed: empty after a final \<open>-\<close> or \<open>:\<close>, otherwise
  \<open>line.split(" ").slice(-1)[0]\<close>, the part after the last space.
\<close>

definition wordOf :: "string \<Rightarrow> string" where
  "wordOf l =
     (if l \<noteq> [] \<and> (last l = CHR ''-'' \<or> last l = CHR '':'') then []
      else rev (takeWhile (\<lambda>c. c \<noteq> CHR '' '') (rev l)))"

text \<open>\<open>line.trimEnd().length - line.trim().length\<close>\<close>

definition indentOf :: "string \<Rightarrow> nat" where
  "indentOf l = length (trimEnd l) - length (trim l)"

text \<open>\<open>line.substring(0, line.length - deletions)\<close>\<close>

definition lineAfterDeletions :: "yaml_context \<Rightarrow> nat \<Rightarrow> string" where
  "lineAfterDeletions ctx d = take (length (ctx_line ctx) - d) (ctx_line ctx)"

definition movedPosition :: "yaml_context \<Rightarrow> nat \<Rightarrow> position" where
  "movedPosition ctx d =
     \<lparr> row = row (ctx_position ctx), column = column (ctx_position ctx) - int d \<rparr>"

text \<open>
  \<open>completeEmptyLineOnIndentation\<close>. Its line is \<open>line.slice(0, -deletions)\<close>, which
  is empty when \<open>deletions\<close> is 0.
\<close>

definition completeEmptyLineOnIndentation ::
  "('tree, 'ann, 'k::linorder) collaborators \<Rightarrow> yaml_context \<Rightarrow> nat \<Rightarrow> string \<Rightarrow> completions_result" where
  "completeEmptyLineOnIndentation env ctx d code =
     (let path = locateFromIndentation env
                   (if d = 0 then [] else take (length (ctx_line ctx) - d) (ctx_line ctx))
                   code (movedPosition ctx d)
      in onlyType KeyCompletion
           (completions env (ctx_schema ctx) path (wordOf (ctx_line ctx))
              (indentOf (ctx_line ctx)) (ctx_commentPrefix ctx)))"

text \<open>
  The path at the cursor for an attempt with an annotated tree: \<open>locateCursor\<close>, or
  \<open>locateFromIndentation\<close> when that failed; a last segment equal to the word is popped.
\<close>

definition cursorPath ::
  "('tree, 'ann, 'k) collaborators \<Rightarrow> yaml_context \<Rightarrow> 'tree parse_attempt \<Rightarrow> 'ann \<Rightarrow> segment list" where
  "cursorPath env ctx a doc =
     (let pos = movedPosition ctx (deletions a);
          located = locateCursor env doc (rowColToIndex env (mappedCode a) pos);
          path = (if fst located
                  then locateFromIndentation env (lineAfterDeletions ctx (deletions a))
                         (mappedCode a) pos
                  else snd located)
      in if path \<noteq> [] \<and> last path = Key (wordOf (ctx_line ctx)) then butlast path else path)"

text \<open>
  The filter on the cursor context: a line with a colon takes value completions, a line
  with neither colon nor dash takes key completions, a line with a dash only takes all.
\<close>

definition filterByContext :: "string \<Rightarrow> completions_result \<Rightarrow> completions_result" where
  "filterByContext l raw =
     (if CHR '':'' \<in> set l then onlyType ValueCompletion raw
      else if CHR ''-'' \<notin> set l then onlyType KeyCompletion raw
      else raw)"

text \<open>
  The loop of \<open>completionsFromGoodParseYAML\<close> over the attempts; \<open>None\<close> is the
  \<open>false\<close> returned when the loop ends.
\<close>

fun completionsLoop ::
  "('tree, 'ann, 'k::linorder) collaborators \<Rightarrow> yaml_context \<Rightarrow> 'tree parse_attempt list
     \<Rightarrow> completions_result option" where
  "completionsLoop env ctx [] = None"
| "completionsLoop env ctx (a # as) =
     (if blank (lineAfterDeletions ctx (deletions a)) then
        Some (completeEmptyLineOnIndentation env ctx (deletions a) (mappedCode a))
      else case buildAnnotated env (tree a) (mappedCode a) of
        None \<Rightarrow> completionsLoop env ctx as
      | Some doc \<Rightarrow>
          Some (filterByContext (ctx_line ctx)
                  (completions env (ctx_schema ctx) (cursorPath env ctx a doc)
                     (wordOf (ctx_line ctx)) (indentOf (ctx_line ctx))
                     (ctx_commentPrefix ctx))))"

text \<open>
  \<open>completionsFromGoodParseYAML\<close>. A line of whitespace only is located by
  indentation, before any parse is attempted.
\<close>

definition completionsFromGoodParseYAML ::
  "('tree, 'ann, 'k::linorder) collaborators \<Rightarrow> yaml_context \<Rightarrow> completions_result option" where
  "completionsFromGoodParseYAML env ctx =
     (if blank (ctx_line ctx) then
        Some (onlyType KeyCompletion
          (completions env (ctx_schema ctx)
             (locateFromIndentation env (ctx_line ctx) (ctx_code ctx) (ctx_position ctx))
             (wordOf (ctx_line ctx)) (length (ctx_line ctx)) (ctx_commentPrefix ctx)))
      else completionsLoop env ctx (attemptParsesAtLine (parse env) (ctx_line ctx)))"

section \<open>The delimiters of a YAML block and the dispatch by file type\<close>

text \<open>The \<open>kind\<close> of a request: \<open>"completions"\<close>, or validation otherwise.\<close>

datatype automation_kind = Completions | Validation

text \<open>
  What an automation function returns: \<open>false\<close>, the object of \<open>completions\<close>, or
  a list of lints.
\<close>

datatype automation_result =
    NoResult
  | CompletionsResult completions_result
  | LintsResult "lint list"

text \<open>
  \<open>positionInTicks\<close>: the cursor is on row 0 of a block that starts with \<open>---\<close>, or
  on the last of \<open>core.lines(code.value)\<close> of a block whose \<open>trimEnd\<close> ends with
  \<open>---\<close>.
\<close>

definition positionInTicks :: "yaml_context \<Rightarrow> bool" where
  "positionInTicks ctx =
     ((startsWith (ctx_code ctx) ''---'' \<and> row (ctx_position ctx) = 0) \<or>
      (endsWith (trimEnd (ctx_code ctx)) ''---'' \<and>
       row (ctx_position ctx) = int (length (lines (ctx_code ctx))) - 1))"

text \<open>\<open>s.lastIndexOf(p)\<close>: the last index at which \<open>p\<close> occurs in \<open>s\<close>, or -1.\<close>

definition lastIndexOf :: "string \<Rightarrow> string \<Rightarrow> int" where
  "lastIndexOf s p =
     (case filter (\<lambda>i. take (length p) (drop i s) = p) (rev [0..<length s + 1]) of
        [] \<Rightarrow> - 1
      | i # rest \<Rightarrow> int i)"

text \<open>
  \<open>trimTicks\<close>: the leading \<open>---\<close> is cut (\<open>start: 3\<close>), then the text from the last
  \<open>---\<close> on is cut when what is left ends with \<open>---\<close> up to trailing whitespace.
\<close>

definition trimTicks :: "yaml_context \<Rightarrow> yaml_context" where
  "trimTicks ctx =
     (let code1 = (if startsWith (ctx_code ctx) ''---'' then drop 3 (ctx_code ctx)
                   else ctx_code ctx);
          code2 = (if endsWith (trimEnd code1) ''---''
                   then take (nat (lastIndexOf code1 ''---'')) code1 else code1)
      in ctx \<lparr> ctx_code := code2 \<rparr>)"

text \<open>\<open>automationFromGoodParseYAML\<close>\<close>

definition automationFromGoodParseYAML ::
  "('tree, 'ann, 'k::linorder) collaborators \<Rightarrow> automation_kind \<Rightarrow> yaml_context
     \<Rightarrow> automation_result" where
  "automationFromGoodParseYAML env kind ctx =
     (if kind = Completions \<and> positionInTicks ctx then NoResult
      else case kind of
        Completions \<Rightarrow>
          (case completionsFromGoodParseYAML env (trimTicks ctx) of
             None \<Rightarrow> NoResult
           | Some r \<Rightarrow> CompletionsResult r)
      | Validation \<Rightarrow> LintsResult (validationFromGoodParseYAML env (trimTicks ctx)))"

text \<open>
  A cell as \<open>automationFromGoodParseMarkdown\<close> reads it from \<open>core.breakQuartoMd\<close>:
  its type, the value of its mapped source, and \<open>cellStartLine\<close>.
\<close>

datatype core_cell_type = CRaw | CMarkdown | CMath | CCode string

record core_cell =
  cc_type :: core_cell_type
  cc_source :: string
  cellStartLine :: int

text \<open>
  The collaborators of the dispatch that are not among the sources: the segmenter of
  \<open>core-lib.js\<close>, the schemas of \<open>getSchemas\<close> (front matter, and one per
  language), \<open>core.partitionCellOptionsMapped\<close> (the \<open>yaml\<close> of its result, \<open>None\<close>
  when undefined) and \<open>core.kLangCommentChars\<close>.
\<close>

record dispatch =
  coreBreakQuartoMd :: "string \<Rightarrow> core_cell list"
  frontMatterSchema :: schema
  languageSchema :: "string \<Rightarrow> schema"
  partitionCellOptionsMapped :: "string \<Rightarrow> string \<Rightarrow> string option"
  kLangCommentChars :: "string \<Rightarrow> string"

text \<open>The errors that the dispatch throws.\<close>

datatype automation_error = UnknownCellType core_cell_type

text \<open>The context of a script: the language if known, the code, the position, the line.\<close>

record script_context =
  sc_language :: "string option"
  sc_code :: string
  sc_position :: position
  sc_line :: string

text \<open>
  \<open>codeLines[0].substring.match(/.*{([a-z]+)}/)\<close>: the last place of the line where
  a brace, one or more lower-case letters and a closing brace stand; the letters.
\<close>

definition lowerCase :: "char \<Rightarrow> bool" where
  "lowerCase c = (c \<in> set ''abcdefghijklmnopqrstuvwxyz'')"

fun fenceLanguage :: "string \<Rightarrow> string option" where
  "fenceLanguage [] = None"
| "fenceLanguage (c # cs) =
     (case fenceLanguage cs of
        Some w \<Rightarrow> Some w
      | None \<Rightarrow>
          (let w = takeWhile lowerCase cs in
           if c = CHR ''{'' \<and> w \<noteq> [] \<and> startsWith (drop (length w) cs) ''}''
           then Some w else None))"

text \<open>
  The context that \<open>automationFromGoodParseScript\<close> builds for the YAML of the cell
  options: the line and the column lose the comment prefix, the row loses the line of
  the language when there is one.
\<close>

definition scriptContext ::
  "dispatch \<Rightarrow> string \<Rightarrow> int \<Rightarrow> string \<Rightarrow> script_context \<Rightarrow> yaml_context" where
  "scriptContext dsp lang codeStartLine yaml context =
     (let commentPrefix = kLangCommentChars dsp lang @ ''| '' in
      \<lparr> ctx_line = drop (length commentPrefix) (sc_line context),
        ctx_position =
          \<lparr> row = row (sc_position context) - codeStartLine,
            column = column (sc_position context) - int (length commentPrefix) \<rparr>,
        ctx_code = yaml,
        ctx_schema = languageSchema dsp lang,
        ctx_commentPrefix = commentPrefix \<rparr>)"

text \<open>
  \<open>automationFromGoodParseScript\<close>. The code from the start of line \<open>codeStartLine\<close>
  to the end of the last line is the whole code, or the code after its first line.
\<close>

definition automationFromGoodParseScript ::
  "('tree, 'ann, 'k::linorder) collaborators \<Rightarrow> dispatch \<Rightarrow> automation_kind \<Rightarrow> script_context
     \<Rightarrow> automation_result" where
  "automationFromGoodParseScript env dsp kind context =
     (let codeLines = lines (sc_code context);
          found =
            (if sc_language context = None \<or> sc_language context = Some [] then
               (if length codeLines < 2 then None
                else map_option (\<lambda>w. (1::int, w)) (fenceLanguage (hd codeLines)))
             else Some (0, the (sc_language context)))
      in case found of
        None \<Rightarrow> NoResult
      | Some (codeStartLine, lang) \<Rightarrow>
          (let mappedCode = (if codeStartLine = 0 then sc_code context
                             else tl (dropWhile (\<lambda>c. c \<noteq> newline) (sc_code context)))
           in case partitionCellOptionsMapped dsp lang mappedCode of
             None \<Rightarrow> NoResult
           | Some yaml \<Rightarrow>
               (let ctx = scriptContext dsp lang codeStartLine yaml context
                in case kind of
                  Completions \<Rightarrow>
                    (if positionInTicks ctx then NoResult
                     else case completionsFromGoodParseYAML env (trimTicks ctx) of
                       None \<Rightarrow> NoResult
                     | Some r \<Rightarrow> CompletionsResult r)
                | Validation \<Rightarrow>
                    LintsResult (validationFromGoodParseYAML env (trimTicks ctx)))))"

text \<open>
  \<open>adjustedCellSize\<close>: a cell that is neither raw nor markdown counts its two fence
  lines; another cell does not count a last line that is blank.
\<close>

definition adjustedCellSize :: "core_cell \<Rightarrow> int" where
  "adjustedCellSize cell =
     (let cellLines = lines (cc_source cell); size = int (length cellLines) in
      if cc_type cell \<noteq> CRaw \<and> cc_type cell \<noteq> CMarkdown then size + 2
      else if blank (last cellLines) then size - 1
      else size)"

text \<open>The loop that finds the cell under the cursor.\<close>

definition findCell :: "core_cell list \<Rightarrow> int \<Rightarrow> core_cell option" where
  "findCell cs r = find (\<lambda>cell. adjustedCellSize cell + cellStartLine cell > r) cs"

text \<open>The loop of the validation branch, with \<open>linesSoFar\<close> and the lints so far.\<close>

fun markdownLints ::
  "('tree, 'ann, 'k::linorder) collaborators \<Rightarrow> dispatch \<Rightarrow> string \<Rightarrow> position
     \<Rightarrow> int \<Rightarrow> lint list \<Rightarrow> core_cell list \<Rightarrow> lint list" where
  "markdownLints env dsp l pos linesSoFar lints [] = lints"
| "markdownLints env dsp l pos linesSoFar lints (cell # rest) =
     (let innerLints =
        (case cc_type cell of
           CRaw \<Rightarrow>
             automationFromGoodParseYAML env Validation
               (trimTicks \<lparr> ctx_line = l, ctx_position = pos, ctx_code = cc_source cell,
                            ctx_schema = frontMatterSchema dsp, ctx_commentPrefix = [] \<rparr>)
         | CCode lang \<Rightarrow>
             (if lang = [] then NoResult
              else automationFromGoodParseScript env dsp Validation
                     \<lparr> sc_language = Some lang, sc_code = cc_source cell,
                       sc_position = pos \<lparr> row := row pos - (linesSoFar + 1) \<rparr>,
                       sc_line = l \<rparr>)
         | _ \<Rightarrow> NoResult)
      in markdownLints env dsp l pos (linesSoFar + adjustedCellSize cell)
           (case innerLints of LintsResult ls \<Rightarrow> lints @ ls | _ \<Rightarrow> lints) rest)"

text \<open>
  \<open>automationFromGoodParseMarkdown\<close>; \<open>Inl\<close> is the error thrown for a cell that is
  neither raw, nor of a language, nor markdown.
\<close>

definition automationFromGoodParseMarkdown ::
  "('tree, 'ann, 'k::linorder) collaborators \<Rightarrow> dispatch \<Rightarrow> automation_kind \<Rightarrow> yaml_context
     \<Rightarrow> automation_error + automation_result" where
  "automationFromGoodParseMarkdown env dsp kind context =
     (let cs = coreBreakQuartoMd dsp (ctx_code context) in
      case kind of
        Completions \<Rightarrow>
          (case findCell cs (row (ctx_position context)) of
             None \<Rightarrow> Inr NoResult
           | Some foundCell \<Rightarrow>
               (case cc_type foundCell of
                  CRaw \<Rightarrow>
                    (let ctx = \<lparr> ctx_line = ctx_line context,
                                 ctx_position = ctx_position context,
                                 ctx_code = cc_source foundCell,
                                 ctx_schema = frontMatterSchema dsp,
                                 ctx_commentPrefix = [] \<rparr>
                     in if positionInTicks ctx then Inr NoResult
                        else Inr (automationFromGoodParseYAML env kind (trimTicks ctx)))
                | CCode lang \<Rightarrow>
                    (if lang = [] then Inl (UnknownCellType (CCode lang))
                     else Inr (automationFromGoodParseScript env dsp kind
                       \<lparr> sc_language = Some lang, sc_code = cc_source foundCell,
                         sc_position =
                           \<lparr> row = row (ctx_position context) - cellStartLine foundCell,
                             column = column (ctx_position context) \<rparr>,
                         sc_line = ctx_line context \<rparr>))
                | CMarkdown \<Rightarrow> Inr NoResult
                | CMath \<Rightarrow> Inl (UnknownCellType CMath)))
      | Validation \<Rightarrow>
          Inr (LintsResult
                 (markdownLints env dsp (ctx_line context) (ctx_position context) 0 [] cs)))"

section \<open>Usable attempts, and concrete requests\<close>





text \<open>
  Modelled from the spec: \<open>core.schemaCompletions\<close> is not among the sources. For the
  concrete requests below: a boolean schema completes to the values \<open>true\<close> and
  \<open>false\<close>, an object schema to its keys.
\<close>

fun sampleCompletions :: "schema \<Rightarrow> completion list" where
  "sampleCompletions (Scalar SBoolean) =
     [\<lparr> comp_type = ValueCompletion, comp_value = ''true'', suggest_on_accept = False,
        comp_schema = Scalar SBoolean \<rparr>,
      \<lparr> comp_type = ValueCompletion, comp_value = ''false'', suggest_on_accept = False,
        comp_schema = Scalar SBoolean \<rparr>]"
| "sampleCompletions (Object props pats) =
     map (\<lambda>p. \<lparr> comp_type = KeyCompletion, comp_value = fst p @ '': '',
                 suggest_on_accept = True, comp_schema = Object props pats \<rparr>) props"
| "sampleCompletions s = []"

text \<open>
  Collaborators for the concrete requests. The tree of a text is the text, every tree
  is annotated by itself, strings are ordered lexicographically, and the cursor is
  located at a fixed path. The parser of \<open>sampleEnv\<close> accepts the texts in \<open>ok\<close>.
\<close>

definition sampleEnv ::
  "(string \<Rightarrow> bool) \<Rightarrow> segment list \<Rightarrow> (string, string, string) collaborators" where
  "sampleEnv ok path =
     \<lparr> parse = (\<lambda>s. if ok s then Some s else None),
       buildAnnotated = (\<lambda>t c. Some t),
       rowColToIndex = (\<lambda>c p. column p),
       locateCursor = (\<lambda>doc i. (False, path)),
       locateFromIndentation = (\<lambda>l c p. []),
       matchPattern = noPatterns,
       schemaCompletions = sampleCompletions,
       validateParse = (\<lambda>s c a. []),
       collate = (\<lambda>s. s) \<rparr>"

definition echoSchema :: schema where
  "echoSchema = Object [(''echo'', Scalar SBoolean)] []"


definition echoEnv :: "(string, string, string) collaborators" where
  "echoEnv = sampleEnv (\<lambda>s. True) [Key ''echo'', Key ''tru'']"








text \<open>A front-matter block, the cursor on its first and on its last line.\<close>

definition frontMatterContext :: "int \<Rightarrow> yaml_context" where
  "frontMatterContext r =
     \<lparr> ctx_line = ''---'', ctx_position = \<lparr> row = r, column = 3 \<rparr>,
       ctx_code = ''---'' @ [newline] @ ''echo: true'' @ [newline] @ ''---'',
       ctx_schema = echoSchema, ctx_commentPrefix = [] \<rparr>"

text \<open>What every result of a completion request satisfies.\<close>

definition wellFormed ::
  "('tree, 'ann, 'k::linorder) collaborators \<Rightarrow> yaml_context \<Rightarrow> completions_result \<Rightarrow> bool" where
  "wellFormed env ctx r =
     (sorted (map (\<lambda>c. collate env (comp_value c)) (completions_list r)) \<and>
      cacheable r \<and> token r = wordOf (ctx_line ctx))"

text \<open>The request on the line \<open>echo: \<close>, the cursor after the space, and its result.\<close>

definition valueContext :: yaml_context where
  "valueContext =
     \<lparr> ctx_line = ''echo: '', ctx_position = \<lparr> row = 0, column = 6 \<rparr>,
       ctx_code = ''echo: '', ctx_schema = echoSchema, ctx_commentPrefix = [] \<rparr>"

definition valueEnv :: "(string, string, string) collaborators" where
  "valueEnv = sampleEnv (\<lambda>s. True) [Key ''echo'']"

definition valueResult :: completions_result where
  "valueResult =
     \<lparr> token = [],
       completions_list =
         [\<lparr> comp_type = ValueCompletion, comp_value = ''false'', suggest_on_accept = False,
            comp_schema = Scalar SBoolean \<rparr>,
          \<lparr> comp_type = ValueCompletion, comp_value = ''true'', suggest_on_accept = False,
            comp_schema = Scalar SBoolean \<rparr>],
       cacheable = True \<rparr>"

text \<open>
  A dispatch whose segmenter returns one raw cell, the front matter, at line 0, and a
  document made of that front matter.
\<close>

definition frontMatterText :: string where
  "frontMatterText = ''---'' @ [newline] @ ''echo: true'' @ [newline] @ ''---''"

definition frontMatterCell :: core_cell where
  "frontMatterCell = \<lparr> cc_type = CRaw, cc_source = frontMatterText, cellStartLine = 0 \<rparr>"

definition sampleDispatch :: dispatch where
  "sampleDispatch =
     \<lparr> coreBreakQuartoMd = (\<lambda>s. [frontMatterCell]),
       frontMatterSchema = echoSchema,
       languageSchema = (\<lambda>l. echoSchema),
       partitionCellOptionsMapped = (\<lambda>l c. Some c),
       kLangCommentChars = (\<lambda>l. ''#'') \<rparr>"




text \<open>
  A front-matter block that ends with a line feed after the closing \<open>---\<close>, the
  cursor on the closing \<open>---\<close> line (row 2).
\<close>

definition closingContext :: yaml_context where
  "closingContext =
     \<lparr> ctx_line = ''---'', ctx_position = \<lparr> row = 2, column = 3 \<rparr>,
       ctx_code = ''---'' @ [newline] @ ''echo: true'' @ [newline] @ ''---'' @ [newline],
       ctx_schema = echoSchema, ctx_commentPrefix = [] \<rparr>"

section \<open>Validation of a document: \<open>validate-document.ts\<close>\<close>














section \<open>The segmenter keeps every line that is not blank or a fence of a code cell\<close>

lemma drops_dropI: "P x \<Longrightarrow> drops P xs ys \<Longrightarrow> drops P (x # xs) ys"
  by simp

lemma drops_keepI: "drops P xs ys \<Longrightarrow> drops P (x # xs) (x # ys)"
  by simp

lemma drops_ConsE:
  assumes "drops P (x # xs) ys"
  obtains (dropped) "P x" "drops P xs ys"
  | (kept) ys' where "ys = x # ys'" "drops P xs ys'"
  using assms by (auto split: list.splits)

lemma drops_refl: "drops P xs xs"
  by (induction xs) auto

lemma drops_all: "list_all P xs \<Longrightarrow> drops P xs []"
  by (induction xs) auto

lemma drops_append:
  "drops P xs ys \<Longrightarrow> drops P xs' ys' \<Longrightarrow> drops P (xs @ xs') (ys @ ys')"
proof (induction xs arbitrary: ys)
  case Nil
  then show ?case by simp
next
  case (Cons x xs)
  from Cons.prems(1) show ?case
  proof (cases rule: drops_ConsE)
    case dropped
    then show ?thesis using Cons.IH Cons.prems(2) by (simp del: drops.simps add: drops_dropI)
  next
    case (kept ys')
    then show ?thesis using Cons.IH Cons.prems(2) by (simp del: drops.simps add: drops_keepI)
  qed
qed

lemma drops_trans: "drops P xs ys \<Longrightarrow> drops P ys zs \<Longrightarrow> drops P xs zs"
proof (induction xs arbitrary: ys zs)
  case Nil
  then show ?case by simp
next
  case (Cons x xs)
  from Cons.prems(1) show ?case
  proof (cases rule: drops_ConsE)
    case dropped
    then show ?thesis using Cons.IH Cons.prems(2) by (blast intro: drops_dropI)
  next
    case (kept ys')
    from Cons.prems(2) [unfolded kept(1)] show ?thesis
    proof (cases rule: drops_ConsE)
      case dropped
      then show ?thesis using Cons.IH kept(2) by (blast intro: drops_dropI)
    next
      case (kept zs')
      then show ?thesis using Cons.IH \<open>drops P xs ys'\<close> by (blast intro: drops_keepI)
    qed
  qed
qed

lemma drops_map:
  "drops P xs ys \<Longrightarrow> (\<And>x. P x \<Longrightarrow> Q (f x)) \<Longrightarrow> drops Q (map f xs) (map f ys)"
proof (induction xs arbitrary: ys)
  case Nil
  then show ?case by simp
next
  case (Cons x xs)
  from Cons.prems(1) show ?case
  proof (cases rule: drops_ConsE)
    case dropped
    then show ?thesis using Cons.IH Cons.prems(2) by (simp del: drops.simps add: drops_dropI)
  next
    case (kept ys')
    then show ?thesis using Cons.IH Cons.prems(2) by (simp del: drops.simps add: drops_keepI)
  qed
qed

lemma drops_mono: "drops P xs ys \<Longrightarrow> (\<And>x. P x \<Longrightarrow> Q x) \<Longrightarrow> drops Q xs ys"
  using drops_map [of P xs ys Q id] by simp

lemma drops_snoc_drop: "drops P xs ys \<Longrightarrow> P x \<Longrightarrow> drops P (xs @ [x]) ys"
  using drops_append [of P xs ys "[x]" "[]"] by simp

lemma drops_rev: "drops P xs ys \<Longrightarrow> drops P (rev xs) (rev ys)"
proof (induction xs arbitrary: ys)
  case Nil
  then show ?case by simp
next
  case (Cons x xs)
  from Cons.prems consider (d) "P x" "drops P xs ys"
    | (k) ys' where "ys = x # ys'" "drops P xs ys'"
    by (auto split: list.splits)
  then show ?case
  proof cases
    case d
    then show ?thesis using Cons.IH drops_snoc_drop [of P "rev xs" "rev ys" x] by simp
  next
    case k
    then show ?thesis using Cons.IH drops_append [of P "rev xs" "rev ys'" "[x]" "[x]"] by simp
  qed
qed

lemma drops_dropWhile: "drops P xs (dropWhile P xs)"
  by (induction xs) (auto simp: drops_refl)

lemma drops_mdTrim: "drops blank ls (mdTrimEmptyLines ls)"
proof -
  let ?ls1 = "dropWhile blank ls"
  have a: "drops blank ls ?ls1" by (rule drops_dropWhile)
  have "drops blank (rev ?ls1) (dropWhile blank (rev ?ls1))" by (rule drops_dropWhile)
  then have b: "drops blank ?ls1 (rev (dropWhile blank (rev ?ls1)))"
    using drops_rev by fastforce
  have c: "drops blank ls (rev (dropWhile blank (rev ?ls1)))"
    by (rule drops_trans [OF a b])
  show ?thesis
  proof (cases "?ls1 = []")
    case True
    have "mdTrimEmptyLines ls = []"
      unfolding mdTrimEmptyLines_def Let_def by (simp only: True if_True refl)
    moreover from a have "drops blank ls []" by (simp only: True)
    ultimately show ?thesis by (simp only:)
  next
    case False
    have "mdTrimEmptyLines ls = rev (dropWhile blank (rev ?ls1))"
      unfolding mdTrimEmptyLines_def Let_def by (simp only: False if_False)
    with c show ?thesis by (simp only:)
  qed
qed

lemma blank_chomp: "blank x \<Longrightarrow> blank (chomp x)"
  by (cases x rule: rev_cases) (auto simp: blank_def chomp_def)

lemma chomp_addNewlines:
  "\<forall>l\<in>set b. newline \<notin> set l \<Longrightarrow> map chomp (addNewlines b) = b"
proof (induction b rule: addNewlines.induct)
  case 1
  then show ?case by simp
next
  case (2 l)
  then show ?case by (cases l rule: rev_cases) (auto simp: chomp_def)
next
  case (3 l v va)
  then show ?case by (simp add: chomp_def)
qed

lemma drops_strip_empty:
  assumes b1: "b1 = (if hd b = [] then tl b else b)"
    and b2: "b2 = (if b1 \<noteq> [] \<and> last b1 = [] then butlast b1 else b1)"
  shows "drops blank b b2"
proof -
  have a: "drops blank b b1"
    unfolding b1 by (cases b) (auto simp: drops_refl blank_def)
  have "drops blank (rev b1) (rev b2)"
    unfolding b2
    by (cases b1 rule: rev_cases)
      (auto simp: drops_refl blank_def simp del: drops.simps(2) intro!: drops_dropI)
  then have "drops blank b1 b2"
    using drops_rev by fastforce
  with a show ?thesis by (rule drops_trans)
qed

lemma flush_cells:
  assumes "\<forall>l\<in>set (lineBuffer st). newline \<notin> set l"
  shows "\<exists>k. cellLines (cells (flushLineBuffer language ft st)) = cellLines (cells st) @ k
             \<and> drops blank (lineBuffer st) k"
proof (cases "lineBuffer st = []")
  case True
  then show ?thesis by (simp add: flushLineBuffer_def)
next
  case False
  define b1 where "b1 = (if hd (lineBuffer st) = [] then tl (lineBuffer st) else lineBuffer st)"
  define b2 where "b2 = (if b1 \<noteq> [] \<and> last b1 = [] then butlast b1 else b1)"
  define k where "k = map chomp (mdTrimEmptyLines (addNewlines b2))"
  have d1: "drops blank (lineBuffer st) b2"
    by (rule drops_strip_empty [OF b1_def b2_def])
  have sub: "set b2 \<subseteq> set (lineBuffer st)"
    using False by (auto simp: b1_def b2_def dest: in_set_butlastD list.set_sel(2))
  with assms have nl: "\<forall>l\<in>set b2. newline \<notin> set l" by blast
  have "drops blank (map chomp (addNewlines b2)) k"
    unfolding k_def by (rule drops_map [OF drops_mdTrim]) (rule blank_chomp)
  then have d2: "drops blank b2 k" by (simp add: chomp_addNewlines [OF nl])
  have "cellLines (cells (flushLineBuffer language ft st)) = cellLines (cells st) @ k"
    using False by (simp add: flushLineBuffer_def Let_def cellLines_def k_def b2_def b1_def)
  with drops_trans [OF d1 d2] show ?thesis by blast
qed

lemma flush_buffer [simp]: "lineBuffer (flushLineBuffer language ft st) = []"
  by (simp add: flushLineBuffer_def Let_def)

lemma flush_inv:
  assumes "seg_inv m st done"
  shows "seg_inv m (flushLineBuffer language ft st) done"
proof -
  from assms have nl: "\<forall>l\<in>set (lineBuffer st). newline \<notin> set l"
    and d: "drops (dropped m) done (cellLines (cells st) @ lineBuffer st)"
    by (simp_all add: seg_inv_def)
  from flush_cells [OF nl, of language ft] obtain k where
    k: "cellLines (cells (flushLineBuffer language ft st)) = cellLines (cells st) @ k"
    and dk: "drops blank (lineBuffer st) k" by blast
  from dk have "drops (dropped m) (lineBuffer st) k"
    by (rule drops_mono) (simp add: dropped_def)
  then have "drops (dropped m) (cellLines (cells st) @ lineBuffer st)
      (cellLines (cells st) @ k)"
    by (rule drops_append [OF drops_refl])
  with d have "drops (dropped m) done (cellLines (cells st) @ k)"
    by (rule drops_trans)
  then show ?thesis by (simp add: seg_inv_def k)
qed

lemma push_inv:
  assumes "seg_inv m st done" and "newline \<notin> set line"
  shows "seg_inv m (push line st) (done @ [line])"
proof -
  from assms(1) have "drops (dropped m) (done @ [line])
      ((cellLines (cells st) @ lineBuffer st) @ [line])"
    unfolding seg_inv_def by (intro drops_append drops_refl) simp
  then show ?thesis using assms by (simp add: seg_inv_def push_def)
qed

lemma skip_inv:
  assumes "seg_inv m st done" and "dropped m line"
  shows "seg_inv m st (done @ [line])"
  using assms drops_snoc_drop [of "dropped m" "done" _ line]
  by (simp add: seg_inv_def)

lemma seg_inv_flags [simp]:
  "seg_inv m (st\<lparr>inYaml := a\<rparr>) done = seg_inv m st done"
  "seg_inv m (st\<lparr>inCode := a\<rparr>) done = seg_inv m st done"
  "seg_inv m (st\<lparr>inCodeCell := a\<rparr>) done = seg_inv m st done"
  "seg_inv m (st\<lparr>parsedFrontMatter := a\<rparr>) done = seg_inv m st done"
  by (simp_all add: seg_inv_def)

lemma step_inv:
  assumes "seg_inv m st done" and "newline \<notin> set line"
  shows "seg_inv m (step m language st line) (done @ [line])"
proof -
  note I = assms(1) and nl = assms(2)
  have p: "\<And>s. seg_inv m s done \<Longrightarrow> seg_inv m (push line s) (done @ [line])"
    using nl by (rule push_inv [rotated])
  have f: "\<And>s ft d. seg_inv m s d \<Longrightarrow> seg_inv m (flushLineBuffer language ft s) d"
    by (rule flush_inv)
  have s: "\<And>s. dropped m line \<Longrightarrow> seg_inv m s done
      \<Longrightarrow> seg_inv m s (done @ [line])"
    by (rule skip_inv)
  show ?thesis
    unfolding step_def
    using I by (auto simp: dropped_def intro!: p f s intro: p f)
qed

lemma run_inv:
  assumes "seg_inv m st done" and "\<forall>l\<in>set ls. newline \<notin> set l"
  shows "seg_inv m (run m language st ls) (done @ ls)"
  using assms
proof (induction ls arbitrary: st "done")
  case Nil
  then show ?case by (simp add: run_def)
next
  case (Cons l ls)
  from Cons.prems have "seg_inv m (step m language st l) (done @ [l])"
    by (simp add: step_inv)
  from Cons.IH [OF this] Cons.prems(2) show ?case by (simp add: run_def)
qed

lemma stripCR_set: "set (stripCR s) \<subseteq> set s"
  by (auto simp: stripCR_def dest: in_set_butlastD)

lemma linesFrom_no_newline:
  "newline \<notin> set cur \<Longrightarrow> \<forall>l\<in>set (linesFrom cur src). newline \<notin> set l"
proof (induction cur src rule: linesFrom.induct)
  case (1 cur)
  then show ?case by simp
next
  case (2 cur c cs)
  then show ?case using stripCR_set [of "rev cur"] by (auto simp: newline_def)
qed

lemma lines_no_newline: "\<forall>l\<in>set (lines src). newline \<notin> set l"
  unfolding lines_def by (rule linesFrom_no_newline) simp

section \<open>The cells are contiguous blocks of the document\<close>














lemma seg_blocks_flags [simp]:
  "seg_blocks P (st\<lparr>inYaml := a\<rparr>) done = seg_blocks P st done"
  "seg_blocks P (st\<lparr>inCode := a\<rparr>) done = seg_blocks P st done"
  "seg_blocks P (st\<lparr>inCodeCell := a\<rparr>) done = seg_blocks P st done"
  "seg_blocks P (st\<lparr>parsedFrontMatter := a\<rparr>) done = seg_blocks P st done"
  by (simp_all add: seg_blocks_def)







lemma segmenter_drops:
  "drops (dropped m) (lines src) (cellLines (segmentWith m language src))"
proof -
  have "seg_inv m initial []"
    by (simp add: seg_inv_def initial_def cellLines_def)
  from run_inv [OF this lines_no_newline]
  have "seg_inv m (run m language initial (lines src)) (lines src)" by simp
  then have "seg_inv m
      (flushLineBuffer language FlushMarkdown (run m language initial (lines src))) (lines src)"
    by (rule flush_inv)
  then show ?thesis by (simp add: seg_inv_def segmentWith_def)
qed

lemma drops_subseq: "drops P xs ys \<Longrightarrow> subseq ys xs"
proof (induction xs arbitrary: ys)
  case Nil
  then show ?case by simp
next
  case (Cons x xs)
  from Cons.prems show ?case
  proof (cases rule: drops_ConsE)
    case dropped
    then have "subseq ys xs" using Cons.IH by blast
    then show ?thesis by (rule list_emb_Cons)
  next
    case (kept ys')
    then have "subseq ys' xs" using Cons.IH by blast
    then show ?thesis unfolding kept(1) by (rule subseq_Cons2)
  qed
qed







text \<open>
  Claim C6, as the code has it. A cell holds its type and its source lines, and the
  lines of the emitted cells, in the order of the cells, are a subsequence of the
  document's lines: the cell list preserves document order. This holds of the cells
  that the loop emits with any compiled expression, so of the cells that
  \<open>breakQuartoMd\<close> returns.
\<close>

theorem segmenter_document_order:
  "subseq (cellLines (segmentWith m language src)) (lines src) \<and>
   (breakQuartoMd re src language = Inr cs \<longrightarrow> subseq (cellLines cs) (lines src))"
proof -
  have a: "subseq (cellLines (segmentWith t language src)) (lines src)" for t
    by (rule drops_subseq [OF segmenter_drops])
  have "subseq (cellLines cs) (lines src)" if "breakQuartoMd re src language = Inr cs"
    using that a by (auto simp: breakQuartoMd_def split: option.splits)
  with a show ?thesis by blast
qed

theorem segmenter_document_order_witness:
  "lines twoLines = [[], ''a''] \<and>
   breakQuartoMd wordRegExp twoLines ''python''
     = Inr [\<lparr>cell_type = Markdown, source = [''a'']\<rparr>] \<and>
   subseq (cellLines [\<lparr>cell_type = Markdown, source = [''a'']\<rparr>]) (lines twoLines)"
proof -
  have a: "lines twoLines = [[], ''a'']" by code_simp
  have b: "breakQuartoMd wordRegExp twoLines ''python''
     = Inr [\<lparr>cell_type = Markdown, source = [''a'']\<rparr>]"
    by code_simp
  from segmenter_document_order [of "wordFence ''python''" "''python''" twoLines wordRegExp
      "[\<lparr>cell_type = Markdown, source = [''a'']\<rparr>]"] b
  have c: "subseq (cellLines [\<lparr>cell_type = Markdown, source = [''a'']\<rparr>]) (lines twoLines)"
    by blast
  from a b c show ?thesis by (intro conjI)
qed

text \<open>
  Claim C6 as stated fails: a cell does not record the number of its first line. Two
  documents give the same cell, whose first line is line 0 of the one and line 1 of the
  other, so nothing in the cell tells its line number.
\<close>

theorem cell_start_line_not_recorded:
  "breakQuartoMd wordRegExp oneLine ''python''
     = Inr [\<lparr>cell_type = Markdown, source = [''a'']\<rparr>] \<and>
   breakQuartoMd wordRegExp twoLines ''python''
     = Inr [\<lparr>cell_type = Markdown, source = [''a'']\<rparr>] \<and>
   lines oneLine = [''a''] \<and>
   lines twoLines = [[], ''a'']"
  by code_simp

section \<open>Fence lines in the loop of the segmenter\<close>

lemma endCode_not_startCodeCell:
  assumes "endCodeRegEx l"
  shows "\<not> wordFence language l"
proof -
  from assms have t: "take 3 l = ''```''" and s: "list_all isSpace (drop 3 l)"
    by (simp_all add: endCodeRegEx_def)
  from t obtain r where l: "l = ''```'' @ r"
    by (metis append_take_drop_id)
  from s l have r: "list_all isSpace r" by simp
  have 1: "dropWhile isSpace l = l" by (simp add: l isSpace_def)
  have 2: "dropWhile (\<lambda>c. c = CHR ''`'') r = r"
    using r by (cases r) (auto simp: isSpace_def)
  have 3: "dropWhile isSpace r = []" using r by (simp add: list_all_iff)
  show ?thesis
    by (simp add: wordFence_def 1 Let_def) (simp add: l 2 3)
qed

lemma endCode_not_yaml: "endCodeRegEx l \<Longrightarrow> \<not> yamlRegEx l"
  by (auto simp: endCodeRegEx_def yamlRegEx_def)

lemma closing_fence_flushes_code:
  assumes "endCodeRegEx line" and "inCodeCell st"
  shows "step (wordFence language) language st line = flushLineBuffer language FlushCode (st\<lparr>inCodeCell := False\<rparr>)"
  using assms by (simp add: step_def endCode_not_startCodeCell)

lemma yaml_not_startCodeCell:
  assumes "yamlRegEx l"
  shows "\<not> wordFence language l"
proof -
  from assms have t: "take 3 l = ''---''" by (simp add: yamlRegEx_def)
  then obtain r where l: "l = ''---'' @ r" by (metis append_take_drop_id)
  have 1: "dropWhile isSpace l = l" by (simp add: l isSpace_def)
  show ?thesis by (simp add: wordFence_def 1 Let_def) (simp add: l)
qed

lemma yaml_line_in_opaque_block:
  assumes "yamlRegEx line" and "inCode st"
  shows "step (wordFence language) language st line = push line st"
proof -
  from assms(1) have a: "\<not> endCodeRegEx line" "\<not> startCodeRegEx line"
    by (auto simp: endCodeRegEx_def yamlRegEx_def startCodeRegEx_def)
  show ?thesis using assms a by (simp add: step_def yaml_not_startCodeCell)
qed

text \<open>
  Claim C2. A closing fence of exactly three backticks, met in a code cell of the target
  language, flushes the code cell (\<open>closing_fence_flushes_code\<close>). A closing fence
  of four backticks does not: \<open>endCodeRegEx\<close> does not match it, the line is buffered,
  the segmenter stays in the code cell, and the cell that the opening fence of four
  backticks began comes out as markdown.
\<close>

theorem long_closing_fence_ignored:
  "inCodeCell (run (wordFence ''python'') ''python'' initial longFenceLines) \<and>
   step (wordFence ''python'') ''python'' (run (wordFence ''python'') ''python'' initial longFenceLines) ''````'' =
     \<lparr>cells = [], lineBuffer = [''1+1'', ''````''], parsedFrontMatter = False,
      inYaml = False, inCodeCell = True, inCode = True\<rparr> \<and>
   breakQuartoMd wordRegExp longFenceDoc ''python'' =
     Inr [\<lparr>cell_type = Markdown, source = [''1+1'' @ [newline], ''````'']\<rparr>]"
  by code_simp

text \<open>
  Claim C3. Inside a bare fenced block a \<open>---\<close> line is buffered
  (\<open>yaml_line_in_opaque_block\<close>), but an opening fence of the target language is
  taken as a state transition: the test of the compiled \<open>startCodeCellRegEx\<close> does not look at
  \<open>inCode\<close>, so the buffer is flushed as markdown and a code cell starts.
\<close>

theorem target_fence_in_opaque_block:
  "inCode (run (wordFence ''python'') ''python'' initial [''```'']) \<and>
   step (wordFence ''python'') ''python'' (run (wordFence ''python'') ''python'' initial [''```'']) ''```{python}'' =
     \<lparr>cells = [\<lparr>cell_type = Markdown, source = [''```'']\<rparr>], lineBuffer = [],
      parsedFrontMatter = False, inYaml = False, inCodeCell = True, inCode = True\<rparr> \<and>
   breakQuartoMd wordRegExp nestedDoc ''python'' =
     Inr [\<lparr>cell_type = Markdown, source = [''```'']\<rparr>,
          \<lparr>cell_type = Code ''python'', source = [''1'']\<rparr>,
          \<lparr>cell_type = Markdown, source = [''```'']\<rparr>]"
  by code_simp

section \<open>The schema navigator on unions\<close>

lemma navigate_empty_path: "navigateSchema m s [] = [s]"
  by (cases s) simp_all

lemma navigate_union:
  "navigateSchema m (AnyOf alts) (seg # rest) =
     concat (map (\<lambda>a. navigateSchema m a (seg # rest)) alts)"
  by (simp add: comp_def)

lemma lookup_property:
  "map_of (map (map_prod id (navigateSchema m)) props) k =
     map_option (navigateSchema m) (map_of props k)"
  by (induction props) auto

lemma map_of_None_iff: "(map_of props k = None) = (k \<notin> set (map fst props))"
  by (induction props) auto

lemma find_pattern_None:
  "(find (\<lambda>pn. m (fst pn) k) (map (map_prod id f) pats) = None)
     = (\<not> list_ex (\<lambda>ps. m (fst ps) k) pats)"
  by (induction pats) auto

lemma find_pattern_Some:
  "find (\<lambda>pn. m (fst pn) k) (map (map_prod id f) pats) = Some pn \<Longrightarrow> \<exists>s. snd pn = f s"
  by (induction pats) (auto split: if_splits)

lemma navigate_one_segment:
  assumes "\<not> isUnion a"
  shows "length (navigateSchema m a [seg]) = (if accepts m a seg then 1 else 0)"
proof (cases a)
  case (Object props pats)
  show ?thesis
  proof (cases seg)
    case (Key k)
    show ?thesis
    proof (cases "map_of props k")
      case None
      note np = None
      show ?thesis
      proof (cases "find (\<lambda>pn. m (fst pn) k) (map (map_prod id (navigateSchema m)) pats)")
        case None
        with np show ?thesis
          using map_of_None_iff [of props k] find_pattern_None [of m k "navigateSchema m" pats]
          by (simp add: Object Key lookup_property)
      next
        case (Some pn)
        from find_pattern_Some [where f = "navigateSchema m" and m = m and k = k, OF Some] obtain s where "snd pn = navigateSchema m s" by blast
        with Some np show ?thesis
          using map_of_None_iff [of props k] find_pattern_None [of m k "navigateSchema m" pats]
          by (simp add: Object Key lookup_property navigate_empty_path)
      qed
    next
      case (Some s)
      then show ?thesis
        using map_of_None_iff [of props k]
        by (simp add: Object Key lookup_property navigate_empty_path)
    qed
  next
    case (Index i)
    then show ?thesis by (simp add: Object)
  qed
next
  case (Array item)
  then show ?thesis by (cases seg) (simp_all add: navigate_empty_path)
next
  case (Scalar t)
  then show ?thesis by simp
next
  case (AnyOf alts)
  with assms show ?thesis by simp
qed

lemma navigate_flat_alternatives:
  "\<forall>a\<in>set alts. \<not> isUnion a \<Longrightarrow>
   length (concat (map (\<lambda>a. navigateSchema m a [seg]) alts))
     = length (validAlternatives m alts seg)"
  by (induction alts) (simp_all add: navigate_one_segment validAlternatives_def)

lemma navigate_count_leaf:
  "\<not> isUnion a \<Longrightarrow>
   length (navigateSchema m a [seg]) = length (filter (\<lambda>b. accepts m b seg) (leaves a))"
  using navigate_one_segment [of a m seg] by (cases a) (simp_all del: navigateSchema.simps)

lemma navigate_count:
  "length (navigateSchema m a [seg]) = length (filter (\<lambda>b. accepts m b seg) (leaves a))"
proof (induction a)
  case (Object props pats)
  show ?case by (rule navigate_count_leaf) simp
next
  case (Array item)
  show ?case by (rule navigate_count_leaf) simp
next
  case (Scalar t)
  show ?case by (rule navigate_count_leaf) simp
next
  case (AnyOf alts)
  then have "length (concat (map (\<lambda>a. navigateSchema m a [seg]) alts))
      = length (filter (\<lambda>b. accepts m b seg) (concat (map leaves alts)))"
    by (induction alts) simp_all
  then show ?case by (simp only: navigate_union leaves.simps)
qed

lemma accepts_leaves:
  "list_ex (\<lambda>b. accepts m b seg) (leaves a) = accepts m a seg"
proof (induction a)
  case (AnyOf alts)
  then show ?case by (auto simp: list_ex_iff)
qed simp_all

lemma navigate_nothing:
  "(navigateSchema m a [seg] = []) = (\<not> accepts m a seg)"
proof -
  have "(navigateSchema m a [seg] = []) = (length (navigateSchema m a [seg]) = 0)"
    by simp
  also have "\<dots> = (filter (\<lambda>b. accepts m b seg) (leaves a) = [])"
    by (simp only: navigate_count length_0_conv)
  also have "\<dots> = (\<not> list_ex (\<lambda>b. accepts m b seg) (leaves a))"
    by (simp add: filter_empty_conv list_ex_iff)
  finally show ?thesis by (simp only: accepts_leaves)
qed

text \<open>
  Claim C4, as the navigator of the spec has it. With the empty path the navigator
  returns the schema itself and nothing else. For a union and a path that is not empty,
  the result is the concatenation of the results of the alternatives, and the schemas
  in it are those of the union of the alternatives' results. With a path of one
  segment:

  \<^item> an alternative contributes nothing exactly when it does not accept the segment,
    so a branch in which the path is invalid drops out alone;

  \<^item> an alternative that is not a union contributes one sub-schema if it accepts the
    segment;

  \<^item> the result has as many sub-schemas as there are schemas that accept the segment
    among the alternatives with the unions among them resolved (\<open>leaves\<close>, with
    repetition);

  \<^item> when no alternative is itself a union, the result has exactly as many sub-schemas
    as there are alternatives that accept the segment.
\<close>

theorem navigate_union_count:
  "navigateSchema m s [] = [s] \<and>
   navigateSchema m (AnyOf alts) (seg # rest)
     = concat (map (\<lambda>a. navigateSchema m a (seg # rest)) alts) \<and>
   set (navigateSchema m (AnyOf alts) (seg # rest))
     = (\<Union>a\<in>set alts. set (navigateSchema m a (seg # rest))) \<and>
   (navigateSchema m a [seg] = []) = (\<not> accepts m a seg) \<and>
   (\<not> isUnion a \<longrightarrow>
     length (navigateSchema m a [seg]) = (if accepts m a seg then 1 else 0)) \<and>
   length (navigateSchema m (AnyOf alts) [seg])
     = length (filter (\<lambda>b. accepts m b seg) (concat (map leaves alts))) \<and>
   (list_all (\<lambda>a. \<not> isUnion a) alts \<longrightarrow>
     length (navigateSchema m (AnyOf alts) [seg]) = length (validAlternatives m alts seg))"
proof -
  have 1: "navigateSchema m s [] = [s]" by (rule navigate_empty_path)
  have 2: "navigateSchema m (AnyOf alts) (seg # rest)
     = concat (map (\<lambda>a. navigateSchema m a (seg # rest)) alts)"
    by (rule navigate_union)
  have 3: "set (navigateSchema m (AnyOf alts) (seg # rest))
     = (\<Union>a\<in>set alts. set (navigateSchema m a (seg # rest)))"
    by (simp only: navigate_union) simp
  have 4: "(navigateSchema m a [seg] = []) = (\<not> accepts m a seg)"
    by (rule navigate_nothing)
  have 5: "\<not> isUnion a \<longrightarrow>
     length (navigateSchema m a [seg]) = (if accepts m a seg then 1 else 0)"
    using navigate_one_segment [of a m seg] by blast
  have 6: "length (navigateSchema m (AnyOf alts) [seg])
     = length (filter (\<lambda>b. accepts m b seg) (concat (map leaves alts)))"
    using navigate_count [of m "AnyOf alts" seg] by (simp only: leaves.simps)
  have 7: "list_all (\<lambda>a. \<not> isUnion a) alts \<longrightarrow>
     length (navigateSchema m (AnyOf alts) [seg]) = length (validAlternatives m alts seg)"
    using navigate_flat_alternatives [of alts m seg]
    by (simp only: navigate_union list_all_iff) simp
  from 1 2 3 4 5 6 7 show ?thesis by (intro conjI)
qed

theorem navigate_union_count_witness:
  "list_all (\<lambda>a. \<not> isUnion a) flatAlts \<and>
   length flatAlts = 4 \<and>
   length (validAlternatives noPatterns flatAlts (Key ''a'')) = 2 \<and>
   length (navigateSchema noPatterns (AnyOf flatAlts) [Key ''a'']) = 2 \<and>
   \<not> isUnion (Array (Scalar SNull)) \<and>
   accepts noPatterns (Array (Scalar SNull)) (Index 0) \<and>
   length (navigateSchema noPatterns (Array (Scalar SNull)) [Index 0]) = 1 \<and>
   filter (\<lambda>b. accepts noPatterns b (Key ''a'')) (concat (map leaves doubleAlts))
     = [Object [(''a'', Scalar SString)] [], Object [(''a'', Scalar SNumber)] []] \<and>
   length (navigateSchema noPatterns (AnyOf doubleAlts) [Key ''a'']) = 2"
proof -
  have h: "list_all (\<lambda>a. \<not> isUnion a) flatAlts"
    by (simp add: flatAlts_def)
  have k: "length flatAlts = 4"
    by (simp add: flatAlts_def)
  have j: "length (validAlternatives noPatterns flatAlts (Key ''a'')) = 2"
    by (simp add: flatAlts_def noPatterns_def validAlternatives_def)
  have u: "\<not> isUnion (Array (Scalar SNull))" by simp
  have a: "accepts noPatterns (Array (Scalar SNull)) (Index 0)" by simp
  have f: "filter (\<lambda>b. accepts noPatterns b (Key ''a'')) (concat (map leaves doubleAlts))
     = [Object [(''a'', Scalar SString)] [], Object [(''a'', Scalar SNumber)] []]"
    by (simp add: doubleAlts_def noPatterns_def)
  note t = navigate_union_count [of noPatterns "AnyOf flatAlts" flatAlts "Key ''a''" "[]"
      "Array (Scalar SNull)"]
  note t' = navigate_union_count [of noPatterns "AnyOf doubleAlts" doubleAlts "Key ''a''" "[]"
      "Array (Scalar SNull)"]
  from t h have "length (navigateSchema noPatterns (AnyOf flatAlts) [Key ''a''])
        = length (validAlternatives noPatterns flatAlts (Key ''a''))"
    by blast
  then have n: "length (navigateSchema noPatterns (AnyOf flatAlts) [Key ''a'']) = 2"
    by (simp only: j)
  from t' have "length (navigateSchema noPatterns (AnyOf doubleAlts) [Key ''a''])
     = length (filter (\<lambda>b. accepts noPatterns b (Key ''a'')) (concat (map leaves doubleAlts)))"
    by blast
  then have d: "length (navigateSchema noPatterns (AnyOf doubleAlts) [Key ''a'']) = 2"
    by (simp only: f) simp
  have o: "length (navigateSchema noPatterns (Array (Scalar SNull)) [Index 0]) = 1"
    by simp
  from h k j n u a o f d show ?thesis by (intro conjI)
qed

text \<open>
  Claim C4 as stated fails when an alternative is itself a union: the root has one
  alternative, the segment is valid in it, and the navigator returns two sub-schemas.
\<close>

theorem navigate_nested_union:
  "length nestedAlts = 1 \<and>
   length (validAlternatives noPatterns nestedAlts (Key ''a'')) = 1 \<and>
   navigateSchema noPatterns (AnyOf nestedAlts) [Key ''a''] = [Scalar SString, Scalar SNumber]"
  by (simp add: nestedAlts_def noPatterns_def validAlternatives_def)

section \<open>The recovery parser terminates and its callers do not fail\<close>










section \<open>Results of completion requests\<close>

lemma completions_fields:
  "token (completions env sch path w ind cp) = w"
  "cacheable (completions env sch path w ind cp)"
  "sorted (map (\<lambda>c. collate env (comp_value c))
     (completions_list (completions env sch path w ind cp)))"
  by (simp_all add: completions_def Let_def)

lemma onlyType_fields:
  "token (onlyType t raw) = token raw"
  "cacheable (onlyType t raw) = cacheable raw"
  "sorted (map f (completions_list raw)) \<Longrightarrow> sorted (map f (completions_list (onlyType t raw)))"
  by (simp_all add: onlyType_def sorted_filter)

lemma filterByContext_fields:
  "token (filterByContext l raw) = token raw"
  "cacheable (filterByContext l raw) = cacheable raw"
  "sorted (map f (completions_list raw)) \<Longrightarrow>
     sorted (map f (completions_list (filterByContext l raw)))"
  by (simp_all add: filterByContext_def onlyType_fields)

lemma completionsLoop_wellFormed:
  "completionsLoop env ctx as = Some r \<Longrightarrow> wellFormed env ctx r"
proof (induction as)
  case Nil
  then show ?case by simp
next
  case (Cons a as)
  show ?case
  proof (cases "blank (lineAfterDeletions ctx (deletions a))")
    case True
    with Cons.prems have "r = completeEmptyLineOnIndentation env ctx (deletions a) (mappedCode a)"
      by simp
    then show ?thesis
      by (simp add: wellFormed_def completeEmptyLineOnIndentation_def Let_def
          onlyType_fields completions_fields)
  next
    case False
    show ?thesis
    proof (cases "buildAnnotated env (tree a) (mappedCode a)")
      case None
      with False Cons show ?thesis by simp
    next
      case (Some doc)
      with False Cons.prems have "r = filterByContext (ctx_line ctx)
          (completions env (ctx_schema ctx) (cursorPath env ctx a doc)
             (wordOf (ctx_line ctx)) (indentOf (ctx_line ctx)) (ctx_commentPrefix ctx))"
        by simp
      then show ?thesis
        by (simp add: wellFormed_def filterByContext_fields completions_fields)
    qed
  qed
qed

lemma completionsYAML_wellFormed:
  assumes "completionsFromGoodParseYAML env ctx = Some r"
  shows "wellFormed env ctx r"
proof (cases "blank (ctx_line ctx)")
  case True
  with assms have "r = onlyType KeyCompletion
      (completions env (ctx_schema ctx)
         (locateFromIndentation env (ctx_line ctx) (ctx_code ctx) (ctx_position ctx))
         (wordOf (ctx_line ctx)) (length (ctx_line ctx)) (ctx_commentPrefix ctx))"
    by (simp add: completionsFromGoodParseYAML_def)
  then show ?thesis by (simp add: wellFormed_def onlyType_fields completions_fields)
next
  case False
  with assms show ?thesis
    by (simp add: completionsFromGoodParseYAML_def completionsLoop_wellFormed)
qed

lemma trimTicks_line [simp]: "ctx_line (trimTicks ctx) = ctx_line ctx"
  by (simp add: trimTicks_def Let_def)

lemma script_completions:
  assumes "automationFromGoodParseScript env dsp Completions sc = CompletionsResult r"
  shows "\<exists>ctx lang. completionsFromGoodParseYAML env ctx = Some r \<and>
     ctx_line ctx = drop (length (kLangCommentChars dsp lang @ ''| '')) (sc_line sc)"
proof -
  from assms obtain lang n yaml where
    "completionsFromGoodParseYAML env (trimTicks (scriptContext dsp lang n yaml sc)) = Some r"
    unfolding automationFromGoodParseScript_def Let_def
    by (auto split: option.splits if_splits prod.splits)
  moreover have "ctx_line (trimTicks (scriptContext dsp lang n yaml sc))
      = drop (length (kLangCommentChars dsp lang @ ''| '')) (sc_line sc)"
    by (simp add: scriptContext_def Let_def)
  ultimately show ?thesis by blast
qed

lemma yaml_completions:
  assumes "automationFromGoodParseYAML env Completions ctx = CompletionsResult r"
  shows "completionsFromGoodParseYAML env (trimTicks ctx) = Some r"
  using assms by (simp add: automationFromGoodParseYAML_def split: if_splits option.splits)

lemma markdown_completions:
  assumes "automationFromGoodParseMarkdown env dsp Completions context = Inr (CompletionsResult r)"
  shows "\<exists>ctx. completionsFromGoodParseYAML env ctx = Some r \<and>
     (ctx_line ctx = ctx_line context \<or>
      (\<exists>lang. ctx_line ctx = drop (length (kLangCommentChars dsp lang @ ''| '')) (ctx_line context)))"
proof -
  let ?cs = "coreBreakQuartoMd dsp (ctx_code context)"
  from assms obtain cell where f: "findCell ?cs (row (ctx_position context)) = Some cell"
    by (auto simp: automationFromGoodParseMarkdown_def Let_def split: option.splits)
  show ?thesis
  proof (cases "cc_type cell")
    case CRaw
    let ?ctx = "\<lparr> ctx_line = ctx_line context, ctx_position = ctx_position context,
                      ctx_code = cc_source cell, ctx_schema = frontMatterSchema dsp,
                      ctx_commentPrefix = [] \<rparr>"
    from assms f CRaw have "automationFromGoodParseYAML env Completions (trimTicks ?ctx)
        = CompletionsResult r"
      by (simp add: automationFromGoodParseMarkdown_def Let_def split: if_splits)
    from yaml_completions [OF this]
    have "completionsFromGoodParseYAML env (trimTicks (trimTicks ?ctx)) = Some r" .
    moreover have "ctx_line (trimTicks (trimTicks ?ctx)) = ctx_line context" by simp
    ultimately show ?thesis by blast
  next
    case CMarkdown
    with assms f show ?thesis by (simp add: automationFromGoodParseMarkdown_def Let_def)
  next
    case CMath
    with assms f show ?thesis by (simp add: automationFromGoodParseMarkdown_def Let_def)
  next
    case (CCode lang)
    let ?sc = "\<lparr> sc_language = Some lang, sc_code = cc_source cell,
                 sc_position = \<lparr> row = row (ctx_position context) - cellStartLine cell,
                                   column = column (ctx_position context) \<rparr>,
                 sc_line = ctx_line context \<rparr>"
    from assms f CCode have "automationFromGoodParseScript env dsp Completions ?sc
        = CompletionsResult r"
      by (simp add: automationFromGoodParseMarkdown_def Let_def split: if_splits)
    from script_completions [OF this] show ?thesis by auto
  qed
qed

text \<open>
  Claim C9. Every result of a completion request, from \<open>completionsFromGoodParseYAML\<close>
  or through the dispatch for YAML, for a script or for a markdown document, has its
  completions sorted in non-decreasing \<open>localeCompare\<close> order of their values and is
  cacheable, and its token is the word being completed: the word of the line, or for
  the options of a code cell the word of the line without its comment prefix.
\<close>

theorem completions_sorted:
  "(completionsFromGoodParseYAML env ctx = Some r \<longrightarrow>
      sorted (map (\<lambda>c. collate env (comp_value c)) (completions_list r)) \<and>
      cacheable r \<and> token r = wordOf (ctx_line ctx)) \<and>
   (automationFromGoodParseYAML env Completions ctx = CompletionsResult r \<longrightarrow>
      sorted (map (\<lambda>c. collate env (comp_value c)) (completions_list r)) \<and>
      cacheable r \<and> token r = wordOf (ctx_line ctx)) \<and>
   (automationFromGoodParseScript env dsp Completions sc = CompletionsResult r \<longrightarrow>
      sorted (map (\<lambda>c. collate env (comp_value c)) (completions_list r)) \<and>
      cacheable r \<and>
      (\<exists>lang. token r
         = wordOf (drop (length (kLangCommentChars dsp lang @ ''| '')) (sc_line sc)))) \<and>
   (automationFromGoodParseMarkdown env dsp Completions context = Inr (CompletionsResult r) \<longrightarrow>
      sorted (map (\<lambda>c. collate env (comp_value c)) (completions_list r)) \<and>
      cacheable r \<and>
      (token r = wordOf (ctx_line context) \<or>
       (\<exists>lang. token r
          = wordOf (drop (length (kLangCommentChars dsp lang @ ''| '')) (ctx_line context)))))"
proof -
  have a: "wellFormed env ctx r" if "completionsFromGoodParseYAML env ctx = Some r"
    using that by (rule completionsYAML_wellFormed)
  have b: "wellFormed env ctx r"
    if h: "automationFromGoodParseYAML env Completions ctx = CompletionsResult r"
    using completionsYAML_wellFormed [OF yaml_completions [OF h]]
    by (simp add: wellFormed_def)
  have c: "sorted (map (\<lambda>c. collate env (comp_value c)) (completions_list r)) \<and>
      cacheable r \<and>
      (\<exists>lang. token r
         = wordOf (drop (length (kLangCommentChars dsp lang @ ''| '')) (sc_line sc)))"
    if h: "automationFromGoodParseScript env dsp Completions sc = CompletionsResult r"
  proof -
    from script_completions [OF h] obtain c lang where
      c: "completionsFromGoodParseYAML env c = Some r"
      "ctx_line c = drop (length (kLangCommentChars dsp lang @ ''| '')) (sc_line sc)"
      by blast
    from completionsYAML_wellFormed [OF c(1)] c(2) show ?thesis
      unfolding wellFormed_def by metis
  qed
  have d: "sorted (map (\<lambda>c. collate env (comp_value c)) (completions_list r)) \<and>
      cacheable r \<and>
      (token r = wordOf (ctx_line context) \<or>
       (\<exists>lang. token r
          = wordOf (drop (length (kLangCommentChars dsp lang @ ''| '')) (ctx_line context))))"
    if h: "automationFromGoodParseMarkdown env dsp Completions context
      = Inr (CompletionsResult r)"
  proof -
    from markdown_completions [OF h] obtain c where
      c: "completionsFromGoodParseYAML env c = Some r"
      "ctx_line c = ctx_line context \<or>
       (\<exists>lang. ctx_line c
          = drop (length (kLangCommentChars dsp lang @ ''| '')) (ctx_line context))"
      by blast
    from completionsYAML_wellFormed [OF c(1)] c(2) show ?thesis
      unfolding wellFormed_def by metis
  qed
  from a b show ?thesis unfolding wellFormed_def using c d by blast
qed

theorem completions_sorted_witness:
  "completionsFromGoodParseYAML valueEnv valueContext = Some valueResult \<and>
   map comp_value (completions_list valueResult) = [''false'', ''true''] \<and>
   sorted (map (\<lambda>c. collate valueEnv (comp_value c)) (completions_list valueResult)) \<and>
   cacheable valueResult \<and> token valueResult = wordOf (ctx_line valueContext)"
proof -
  have e: "completionsFromGoodParseYAML valueEnv valueContext = Some valueResult"
    by code_simp
  have v: "map comp_value (completions_list valueResult) = [''false'', ''true'']"
    by (simp add: valueResult_def)
  from completions_sorted [of valueEnv valueContext valueResult] e
  have "sorted (map (\<lambda>c. collate valueEnv (comp_value c)) (completions_list valueResult)) \<and>
      cacheable valueResult \<and> token valueResult = wordOf (ctx_line valueContext)"
    by blast
  with e v show ?thesis by (intro conjI) blast+
qed


lemma indent_type [simp]: "comp_type (indentCompletion i cp c) = comp_type c"
  by (simp add: indentCompletion_def split: schema.splits option.splits)

















lemma delimiter_rows_no_completions:
  "(positionInTicks ctx \<longrightarrow> automationFromGoodParseYAML env Completions ctx = NoResult) \<and>
   (findCell (coreBreakQuartoMd dsp (ctx_code context)) (row (ctx_position context)) = Some cell \<and>
    cc_type cell = CRaw \<and>
    positionInTicks \<lparr> ctx_line = ctx_line context, ctx_position = ctx_position context,
                      ctx_code = cc_source cell, ctx_schema = frontMatterSchema dsp,
                      ctx_commentPrefix = [] \<rparr>
    \<longrightarrow> automationFromGoodParseMarkdown env dsp Completions context = Inr NoResult)"
  by (simp add: automationFromGoodParseYAML_def automationFromGoodParseMarkdown_def Let_def)

lemma delimiter_rows_example:
  "positionInTicks (frontMatterContext 0) \<and>
   positionInTicks (frontMatterContext 2) \<and>
   \<not> positionInTicks (frontMatterContext 1) \<and>
   automationFromGoodParseYAML echoEnv Completions (frontMatterContext 0) = NoResult \<and>
   automationFromGoodParseYAML echoEnv Completions (frontMatterContext 2) = NoResult \<and>
   automationFromGoodParseMarkdown echoEnv sampleDispatch Completions (frontMatterContext 2)
     = Inr NoResult"
  by code_simp

text \<open>
  Claim C10. With the cursor on row 0 of a block that starts with \<open>---\<close>, or on the
  last of \<open>core.lines(code.value)\<close> of a block whose text ends with \<open>---\<close> up to
  trailing whitespace, a completion request gets \<open>false\<close>, whatever the schema and the
  parser (\<open>delimiter_rows_no_completions\<close>). But when the block ends with a line feed
  after the closing \<open>---\<close>, the last of \<open>core.lines\<close> is the empty line after the
  delimiter: with the cursor on the closing \<open>---\<close> line, \<open>positionInTicks\<close> is false and
  completions are computed and returned.
\<close>

theorem closing_delimiter_before_line_feed:
  "lines (ctx_code closingContext) = [''---'', ''echo: true'', ''---'', []] \<and>
   row (ctx_position closingContext) = 2 \<and>
   endsWith (trimEnd (ctx_code closingContext)) ''---'' \<and>
   \<not> positionInTicks closingContext \<and>
   automationFromGoodParseYAML valueEnv Completions closingContext
     = CompletionsResult valueResult"
  by code_simp

section \<open>What the validation of a document throws and what it collects\<close>




















end
